theory Spec2Isabelle
  imports
    Main
    "HOL-Library.Char_ord"
    "HOL-Library.List_Lexorder"
    "HOL-Library.Option_ord"
begin

section \<open>The IPL dashboard of app.py: the tables, the queries and the views\<close>

text \<open>
  app.py loads matches.csv and deliveries.csv into two SQLite tables and draws every
  figure of the dashboard from an aggregate query over them. The embedding has three
  layers, as the script has: SQL's values and truth values, one HOL function for each
  query text of the script (under the query's own name), and one function for each
  view, which runs the queries in the script's order and computes what the script
  displays.
\<close>

subsection \<open>SQL values and three-valued conditions\<close>

text \<open>
  A text cell is NULL or a string; so is the Python value that pandas hands back for it
  (\<open>None\<close> or a \<open>str\<close>). A condition of a WHERE clause is true, false or NULL, and a
  row is selected when the condition is true. SQLite compares text byte by byte
  (collation BINARY), which is equality of strings here.
\<close>

type_synonym sqltext = "string option"

type_synonym tv = "bool option"

definition sql_eq :: "'a option \<Rightarrow> 'a option \<Rightarrow> tv" where
  "sql_eq a b = (case a of None \<Rightarrow> None | Some x \<Rightarrow> (case b of None \<Rightarrow> None | Some y \<Rightarrow> Some (x = y)))"

fun sql_and :: "tv \<Rightarrow> tv \<Rightarrow> tv" where
  "sql_and (Some False) _ = Some False"
| "sql_and _ (Some False) = Some False"
| "sql_and (Some True) (Some True) = Some True"
| "sql_and _ _ = None"

fun sql_or :: "tv \<Rightarrow> tv \<Rightarrow> tv" where
  "sql_or (Some True) _ = Some True"
| "sql_or _ (Some True) = Some True"
| "sql_or (Some False) (Some False) = Some False"
| "sql_or _ _ = None"

definition sql_is_null :: "'a option \<Rightarrow> tv" where
  "sql_is_null a = Some (a = None)"

definition sql_is_not_null :: "'a option \<Rightarrow> tv" where
  "sql_is_not_null a = Some (a \<noteq> None)"

definition sql_not_in :: "'a option \<Rightarrow> 'a list \<Rightarrow> tv" where
  \<comment> \<open>\<open>a NOT IN (v1, ..., vn)\<close> with no NULL among the listed values\<close>
  "sql_not_in a vs = (case a of None \<Rightarrow> None | Some x \<Rightarrow> Some (x \<notin> set vs))"

definition selected :: "tv \<Rightarrow> bool" where
  "selected c = (c = Some True)"

definition count_star :: "('r \<Rightarrow> tv) \<Rightarrow> 'r list \<Rightarrow> int" where
  \<comment> \<open>\<open>SELECT COUNT(*) FROM t WHERE c\<close>\<close>
  "count_star c rows = int (length (filter (\<lambda>r. selected (c r)) rows))"

definition select_distinct_ordered :: "('r \<Rightarrow> sqltext) \<Rightarrow> 'r list \<Rightarrow> sqltext list" where
  \<comment> \<open>\<open>SELECT DISTINCT col FROM t ORDER BY col\<close>: NULL sorts first, text in byte order\<close>
  "select_distinct_ordered col rows = sort (remdups (map col rows))"


definition truthy :: "sqltext \<Rightarrow> bool" where
  "truthy t = (case t of None \<Rightarrow> False | Some s \<Rightarrow> s \<noteq> [])"

definition interpolate :: "sqltext \<Rightarrow> string" where
  \<comment> \<open>\<open>f"{x}"\<close>: a string is written as it is, \<open>None\<close> as the word None\<close>
  "interpolate t = (case t of None \<Rightarrow> ''None'' | Some s \<Rightarrow> s)"

subsection \<open>The matches table\<close>

text \<open>
  The script never asks whether matches.csv has its columns, and a row of the table
  is a record of them. SQLite takes column names without regard to case, so \<open>Team1\<close>
  and \<open>team1\<close>, \<open>Winner\<close> and \<open>winner\<close> in the query texts are the same column. The
  counts are the 64-bit integers of pandas, far from their bounds on any table that
  fits in memory, and are integers here.
\<close>

record match_row =
  match_id :: int
  match_date :: string
  team1 :: sqltext
  team2 :: sqltext
  venue :: sqltext
  winner :: sqltext
  player_of_match :: sqltext

type_synonym matches = "match_row list"

definition teams_query :: "matches \<Rightarrow> sqltext list" where
  \<comment> \<open>\<open>SELECT DISTINCT team1 FROM matches ORDER BY team1;\<close>\<close>
  "teams_query ms = select_distinct_ordered team1 ms"

definition matches_played_query :: "matches \<Rightarrow> string \<Rightarrow> int" where
  \<comment> \<open>\<open>SELECT COUNT(*) ... WHERE Team1 = '{selected_team}' OR Team2 = '{selected_team}';\<close>\<close>
  "matches_played_query ms t =
     count_star (\<lambda>m. sql_or (sql_eq (team1 m) (Some t)) (sql_eq (team2 m) (Some t))) ms"

definition matches_won_query :: "matches \<Rightarrow> string \<Rightarrow> int" where
  \<comment> \<open>\<open>SELECT COUNT(*) ... WHERE Winner = '{selected_team}';\<close>\<close>
  "matches_won_query ms t = count_star (\<lambda>m. sql_eq (winner m) (Some t)) ms"

definition no_result_query :: "matches \<Rightarrow> string \<Rightarrow> int" where
  \<comment> \<open>\<open>... WHERE (Team1 = '{selected_team}' OR Team2 = '{selected_team}')
        AND (winner IS NULL OR winner = 'No Result');\<close>\<close>
  "no_result_query ms t =
     count_star (\<lambda>m. sql_and
        (sql_or (sql_eq (team1 m) (Some t)) (sql_eq (team2 m) (Some t)))
        (sql_or (sql_is_null (winner m)) (sql_eq (winner m) (Some ''No Result'')))) ms"

subsection \<open>The Team Performance view\<close>

record team_metrics =
  metric_total_matches :: int
  metric_wins :: int
  metric_losses :: int
  metric_no_result :: int

datatype 'a pie = Pie_Chart "(string \<times> 'a \<times> string) list" | Pie_Text string

fun non_zero_loop ::
  "(int \<times> string \<times> string) list \<Rightarrow> int list \<times> string list \<times> string list
    \<Rightarrow> int list \<times> string list \<times> string list" where
  \<comment> \<open>\<open>for size, label, color in zip(sizes, labels, colors): if size > 0: ... .append(...)\<close>\<close>
  "non_zero_loop [] acc = acc"
| "non_zero_loop ((sz, label, color) # rest) (non_zero_sizes, non_zero_labels, non_zero_colors) =
     (if sz > 0
      then non_zero_loop rest
             (non_zero_sizes @ [sz], non_zero_labels @ [label], non_zero_colors @ [color])
      else non_zero_loop rest (non_zero_sizes, non_zero_labels, non_zero_colors))"

definition team_pie :: "team_metrics \<Rightarrow> int pie" where
  \<comment> \<open>the chart is given the three lists; it is kept here as the list of its wedges
      (label, size, colour)\<close>
  "team_pie m =
     (if metric_total_matches m > 0 then
        (let labels = [''Wins'', ''Losses'', ''No Result''];
             sizes = [metric_wins m, metric_losses m, metric_no_result m];
             colors = [''#4CAF50'', ''#F44336'', ''#9E9E9E''];
             (non_zero_sizes, non_zero_labels, non_zero_colors) =
                non_zero_loop (zip sizes (zip labels colors)) ([], [], [])
         in if non_zero_sizes \<noteq> []
            then Pie_Chart (zip non_zero_labels (zip non_zero_sizes non_zero_colors))
            else Pie_Text ''No match data to display in pie chart.'')
      else Pie_Text ''No matches found for this team.'')"

definition team_analysis :: "matches \<Rightarrow> string \<Rightarrow> team_metrics" where
  \<comment> \<open>the three queries and the derived losses, lines 185 to 213\<close>
  "team_analysis ms selected_team =
     (let total_matches = matches_played_query ms selected_team;
          total_wins = matches_won_query ms selected_team;
          total_no_result = no_result_query ms selected_team;
          total_losses = total_matches - total_wins - total_no_result
      in \<lparr>metric_total_matches = total_matches, metric_wins = total_wins,
          metric_losses = total_losses, metric_no_result = total_no_result\<rparr>)"

definition team_view :: "matches \<Rightarrow> sqltext \<Rightarrow> (team_metrics \<times> int pie) option" where
  \<comment> \<open>\<open>if selected_team:\<close> the four metrics and the Win/Loss chart; nothing otherwise\<close>
  "team_view ms selected_team =
     (if truthy selected_team
      then (let m = team_analysis ms (interpolate selected_team) in Some (m, team_pie m))
      else None)"

subsection \<open>The Head-to-Head view\<close>

text \<open>
  \<open>run_query\<close> is the script's only way to the tables. A view returns, next to what it
  displays, the queries it handed to \<open>run_query\<close>, in order; a query is named after
  the script's variable that holds its text and carries the names written into it.
\<close>

datatype query =
    Batsmen_Query string
  | Boundary_Query string string
  | H2H_Matches_Query string string
  | Team_A_Wins_Query string string
  | Team_B_Wins_Query string string

definition h2h_pair :: "string \<Rightarrow> string \<Rightarrow> match_row \<Rightarrow> tv" where
  \<comment> \<open>\<open>(team1 = '{team_a}' AND team2 = '{team_b}') OR (team1 = '{team_b}' AND team2 = '{team_a}')\<close>\<close>
  "h2h_pair team_a team_b m =
     sql_or (sql_and (sql_eq (team1 m) (Some team_a)) (sql_eq (team2 m) (Some team_b)))
            (sql_and (sql_eq (team1 m) (Some team_b)) (sql_eq (team2 m) (Some team_a)))"

definition h2h_matches_query :: "matches \<Rightarrow> string \<Rightarrow> string \<Rightarrow> int" where
  "h2h_matches_query ms team_a team_b = count_star (h2h_pair team_a team_b) ms"

definition team_a_wins_query :: "matches \<Rightarrow> string \<Rightarrow> string \<Rightarrow> int" where
  \<comment> \<open>\<open>WHERE winner = '{team_a}' AND (... the pair, written as above ...)\<close>\<close>
  "team_a_wins_query ms team_a team_b =
     count_star (\<lambda>m. sql_and (sql_eq (winner m) (Some team_a)) (h2h_pair team_a team_b m)) ms"

definition team_b_wins_query :: "matches \<Rightarrow> string \<Rightarrow> string \<Rightarrow> int" where
  \<comment> \<open>\<open>WHERE winner = '{team_b}' AND (... the pair, written as above ...)\<close>\<close>
  "team_b_wins_query ms team_a team_b =
     count_star (\<lambda>m. sql_and (sql_eq (winner m) (Some team_b)) (h2h_pair team_a team_b m)) ms"

datatype h2h_display =
    H2H_Metrics int int int int
      \<comment> \<open>Total H2H Matches, team_a Wins, team_b Wins, No Result\<close>
  | H2H_Not_Played
      \<comment> \<open>"These two teams have not played against each other."\<close>
  | H2H_Warning
      \<comment> \<open>"Please select two different teams for Head-to-Head analysis."\<close>
  | H2H_Nothing

definition h2h_view :: "matches \<Rightarrow> sqltext \<Rightarrow> sqltext \<Rightarrow> query list \<times> h2h_display" where
  "h2h_view ms team_a team_b =
     (if truthy team_a \<and> truthy team_b \<and> team_a \<noteq> team_b then
        (let a = interpolate team_a;
             b = interpolate team_b;
             h2h_total = h2h_matches_query ms a b;
             team_a_wins = team_a_wins_query ms a b;
             team_b_wins = team_b_wins_query ms a b;
             h2h_no_result = h2h_total - team_a_wins - team_b_wins
         in ([H2H_Matches_Query a b, Team_A_Wins_Query a b, Team_B_Wins_Query a b],
             if h2h_total > 0
             then H2H_Metrics h2h_total team_a_wins team_b_wins h2h_no_result
             else H2H_Not_Played))
      else if team_a = team_b then ([], H2H_Warning)
      else ([], H2H_Nothing))"

subsection \<open>The deliveries table\<close>

text \<open>
  deliveries.csv names its batter column \<open>batter\<close> or \<open>batsman\<close>, and the script asks
  the table which. A table is therefore its header and its rows; a query that names a
  column the header lacks raises \<open>pandas.errors.DatabaseError\<close>, before any row is
  read. The header is consulted for the three columns whose absence the script handles
  (\<open>batter\<close>, \<open>batsman\<close>, \<open>bowler\<close>); a row's cell under a column the header lacks is
  never read.
\<close>

record delivery =
  batter :: sqltext
  batsman :: sqltext
  bowler :: sqltext
  batsman_runs :: "int option"
  dismissal_kind :: sqltext

record deliveries_table =
  d_columns :: "string list"
  d_rows :: "delivery list"

datatype error =
    DatabaseError
  | Stopped string
      \<comment> \<open>\<open>st.error(message); st.stop()\<close>\<close>

definition batter_column :: "string \<Rightarrow> delivery \<Rightarrow> sqltext" where
  "batter_column label r = (if label = ''batter'' then batter r else batsman r)"

definition batsmen_query :: "deliveries_table \<Rightarrow> string \<Rightarrow> error + sqltext list" where
  \<comment> \<open>\<open>SELECT DISTINCT {label} FROM deliveries ORDER BY {label};\<close> for the two labels\<close>
  "batsmen_query tbl label =
     (if label \<in> set (d_columns tbl)
      then Inr (select_distinct_ordered (batter_column label) (d_rows tbl))
      else Inl DatabaseError)"

definition sql_sum :: "int list \<Rightarrow> int option" where
  \<comment> \<open>\<open>SUM\<close> over the selected rows: NULL when there is none\<close>
  "sql_sum xs = (if xs = [] then None else Some (sum_list xs))"

definition case_when :: "tv \<Rightarrow> 'a \<Rightarrow> 'a \<Rightarrow> 'a" where
  \<comment> \<open>\<open>CASE WHEN c THEN a ELSE b END\<close>\<close>
  "case_when c a b = (if selected c then a else b)"

definition boundary_query ::
  "deliveries_table \<Rightarrow> string \<Rightarrow> string \<Rightarrow> error + (int option \<times> int option)" where
  \<comment> \<open>\<open>SELECT SUM(CASE WHEN batsman_runs = 4 THEN 1 ELSE 0 END) as Fours,
             SUM(CASE WHEN batsman_runs = 6 THEN 1 ELSE 0 END) as Sixes
      FROM deliveries WHERE {batsman_col_name} = '{selected_batsman}';\<close>\<close>
  "boundary_query tbl batsman_col_name selected_batsman =
     (if batsman_col_name \<in> set (d_columns tbl) then
        (let rs = filter (\<lambda>r. selected (sql_eq (batter_column batsman_col_name r)
                                                 (Some selected_batsman))) (d_rows tbl)
         in Inr (sql_sum (map (\<lambda>r. case_when (sql_eq (batsman_runs r) (Some 4)) 1 0) rs),
                 sql_sum (map (\<lambda>r. case_when (sql_eq (batsman_runs r) (Some 6)) 1 0) rs)))
      else Inl DatabaseError)"

subsection \<open>The Batsman Analysis view\<close>

definition resolve_batsman_col ::
  "deliveries_table \<Rightarrow> query list \<times> (error + string \<times> sqltext list)" where
  \<comment> \<open>lines 117 to 129: the label that answers, with the list of batters read under it\<close>
  "resolve_batsman_col tbl =
     (case batsmen_query tbl ''batter'' of
        Inr batsmen_list \<Rightarrow> ([Batsmen_Query ''batter''], Inr (''batter'', batsmen_list))
      | Inl DatabaseError \<Rightarrow>
          (case batsmen_query tbl ''batsman'' of
             Inr batsmen_list \<Rightarrow>
               ([Batsmen_Query ''batter'', Batsmen_Query ''batsman''],
                Inr (''batsman'', batsmen_list))
           | Inl e \<Rightarrow>
               ([Batsmen_Query ''batter'', Batsmen_Query ''batsman''],
                Inl (Stopped ''Could not find 'batter' or 'batsman' column in deliveries.csv.'')))
      | Inl e \<Rightarrow> ([Batsmen_Query ''batter''], Inl e))"

definition py_int_or_0 :: "int option \<Rightarrow> int" where
  \<comment> \<open>\<open>int(x) if x else 0\<close>\<close>
  "py_int_or_0 x = (case x of None \<Rightarrow> 0 | Some n \<Rightarrow> if n \<noteq> 0 then n else 0)"

definition py_and_positive :: "int option \<Rightarrow> bool" where
  \<comment> \<open>\<open>x and x > 0\<close>, as a truth value\<close>
  "py_and_positive x = (case x of None \<Rightarrow> False | Some n \<Rightarrow> n \<noteq> 0 \<and> n > 0)"

record batsman_display =
  shown_fours :: int
  shown_sixes :: int
  boundary_pie :: "int option pie"

definition batsman_pie :: "string \<Rightarrow> int option \<Rightarrow> int option \<Rightarrow> int option pie" where
  "batsman_pie selected_batsman fours sixes =
     (if py_and_positive fours \<or> py_and_positive sixes then
        (let labels = [''Fours'', ''Sixes''];
             sizes = [fours, sixes];
             colors = [''#007bff'', ''#dc3545'']
         in Pie_Chart (zip labels (zip sizes colors)))
      else Pie_Text (selected_batsman @ '' has not hit any boundaries.''))"

definition batsman_view ::
  "deliveries_table \<Rightarrow> sqltext \<Rightarrow> query list \<times> (error + batsman_display option)" where
  \<comment> \<open>lines 117 to 165; an exception that nothing catches ends the run of the script\<close>
  "batsman_view tbl selected_batsman =
     (case resolve_batsman_col tbl of
        (qs, Inl e) \<Rightarrow> (qs, Inl e)
      | (qs, Inr (batsman_col_name, batsmen_list)) \<Rightarrow>
          (if truthy selected_batsman then
             (let name = interpolate selected_batsman
              in (qs @ [Boundary_Query batsman_col_name name],
                  case boundary_query tbl batsman_col_name name of
                    Inl e \<Rightarrow> Inl e
                  | Inr (fours, sixes) \<Rightarrow>
                      Inr (Some \<lparr>shown_fours = py_int_or_0 fours,
                                 shown_sixes = py_int_or_0 sixes,
                                 boundary_pie = batsman_pie name fours sixes\<rparr>)))
           else (qs, Inr None)))"

subsection \<open>The Bowler Analysis view\<close>









text \<open>
  Python writes an integer into an f-string in decimal, with a minus sign when it is
  negative.
\<close>

definition digit_char :: "nat \<Rightarrow> char" where
  \<comment> \<open>the decimal digit \<open>d\<close>, for \<open>d\<close> below ten\<close>
  "digit_char d = ''0123456789'' ! d"

function str_nat :: "nat \<Rightarrow> string" where
  "str_nat n = (if n < 10 then [digit_char n] else str_nat (n div 10) @ [digit_char (n mod 10)])"
  by pat_completeness auto
termination
  by (relation "measure id") auto

declare str_nat.simps [simp del]

definition py_str :: "int \<Rightarrow> string" where
  "py_str i = (if i < 0 then CHR ''-'' # str_nat (nat (- i)) else str_nat (nat i))"

definition overs_bowled_str :: "int \<Rightarrow> string" where
  \<comment> \<open>\<open>f"{total_balls // 6}.{total_balls % 6}"\<close>\<close>
  "overs_bowled_str total_balls = py_str (total_balls div 6) @ ''.'' @ py_str (total_balls mod 6)"



subsection \<open>Reading an overs string back\<close>

text \<open>
  The script only writes the overs string. To state that the string keeps the split of
  the balls into overs and remaining balls, the two numbers are read back from it: the
  digits before the point and the digits after it.
\<close>

definition digit_value :: "char \<Rightarrow> nat" where
  "digit_value c = of_char c - 48"

definition read_nat :: "string \<Rightarrow> nat" where
  "read_nat s = foldl (\<lambda>a c. 10 * a + digit_value c) 0 s"

definition read_overs :: "string \<Rightarrow> nat \<times> nat" where
  "read_overs s =
     (read_nat (takeWhile (\<lambda>c. c \<noteq> CHR ''.'') s),
      read_nat (drop 1 (dropWhile (\<lambda>c. c \<noteq> CHR ''.'') s)))"

subsection \<open>Two small tables\<close>

text \<open>
  The tables the statements below are tried on. The matches are the scenario of the
  specification (two matches between A and B, one won by A and one without a winner)
  and a third match whose winner field names neither side. The deliveries are the
  specification's three balls of bowler X (two caught, one run out), the first of them
  hit for four by batter A.
\<close>

definition match_between :: "int \<Rightarrow> string \<Rightarrow> string \<Rightarrow> sqltext \<Rightarrow> match_row" where
  "match_between i a b w =
     \<lparr>match_id = i, match_date = ''2008-04-18'', team1 = Some a, team2 = Some b,
      venue = None, winner = w, player_of_match = None\<rparr>"

definition example_matches :: matches where
  "example_matches =
     [match_between 1 ''A'' ''B'' (Some ''A''),
      match_between 2 ''A'' ''B'' None,
      match_between 3 ''B'' ''A'' (Some ''C'')]"

definition ball :: "string \<Rightarrow> string \<Rightarrow> int \<Rightarrow> sqltext \<Rightarrow> delivery" where
  \<comment> \<open>the striker's name stands under both labels; the header says which one exists\<close>
  "ball striker bowled_by_name runs kind =
     \<lparr>batter = Some striker, batsman = Some striker, bowler = Some bowled_by_name,
      batsman_runs = Some runs, dismissal_kind = kind\<rparr>"

definition example_rows :: "delivery list" where
  "example_rows =
     [ball ''A'' ''X'' 4 (Some ''caught''),
      ball ''A'' ''X'' 0 (Some ''caught''),
      ball ''A'' ''X'' 1 (Some ''run out'')]"

definition example_deliveries :: "string list \<Rightarrow> deliveries_table" where
  "example_deliveries header = \<lparr>d_columns = header, d_rows = example_rows\<rparr>"

section \<open>Properties\<close>

subsection \<open>Conditions of WHERE clauses\<close>



lemma selected_sql_or: "selected (sql_or a b) = (selected a \<or> selected b)"
  by (induction a b rule: sql_or.induct) (simp_all add: selected_def)

lemma selected_sql_and: "selected (sql_and a b) = (selected a \<and> selected b)"
  by (induction a b rule: sql_and.induct) (simp_all add: selected_def)

lemma selected_sql_eq: "selected (sql_eq a (Some v)) = (a = Some v)"
  by (cases a) (auto simp: selected_def sql_eq_def)

lemma selected_sql_is_null: "selected (sql_is_null a) = (a = None)"
  by (simp add: selected_def sql_is_null_def)

lemma selected_sql_is_not_null: "selected (sql_is_not_null a) = (a \<noteq> None)"
  by (simp add: selected_def sql_is_not_null_def)

lemma selected_sql_not_in:
  "selected (sql_not_in a vs) = (case a of None \<Rightarrow> False | Some x \<Rightarrow> x \<notin> set vs)"
  by (cases a) (simp_all add: selected_def sql_not_in_def)

lemmas selected_simps =
  selected_sql_or selected_sql_and selected_sql_eq selected_sql_is_null
  selected_sql_is_not_null selected_sql_not_in

subsection \<open>The Team Performance view\<close>

lemma matches_played_count:
  "matches_played_query ms t =
     int (length (filter (\<lambda>m. team1 m = Some t \<or> team2 m = Some t) ms))"
  by (simp add: matches_played_query_def count_star_def selected_simps)

lemma matches_won_count:
  "matches_won_query ms t = int (length (filter (\<lambda>m. winner m = Some t) ms))"
  by (simp add: matches_won_query_def count_star_def selected_simps)

lemma no_result_count:
  "no_result_query ms t =
     int (length (filter (\<lambda>m. (team1 m = Some t \<or> team2 m = Some t) \<and>
       (winner m = None \<or> winner m = Some ''No Result'')) ms))"
  by (simp add: no_result_query_def count_star_def selected_simps)



text \<open>
  The losses are a difference of counts and are displayed as they come out: a team
  named as the winner of a match it did not play in gets a negative number.
\<close>

lemma losses_can_be_negative:
  "team_view [match_between 1 ''A'' ''B'' (Some ''A''), match_between 2 ''B'' ''D'' (Some ''A'')]
      (Some ''A'') =
   Some (\<lparr>metric_total_matches = 1, metric_wins = 2, metric_losses = - 1, metric_no_result = 0\<rparr>,
         Pie_Chart [(''Wins'', 2, ''#4CAF50'')])"
  by (simp add: team_view_def truthy_def interpolate_def team_analysis_def team_pie_def
      matches_played_count matches_won_count no_result_count match_between_def)

subsection \<open>The Head-to-Head view\<close>









text \<open>
  Claim C8. When the two selected teams are equal, whatever they are, the view shows
  the warning and hands no query to \<open>run_query\<close>: none of the three head-to-head
  queries runs and no metric is displayed.
\<close>

theorem h2h_same_team_guard: "h2h_view ms t t = ([], H2H_Warning)"
  by (simp add: h2h_view_def)

theorem h2h_same_team_guard_witness:
  "h2h_view example_matches (Some ''A'') (Some ''A'') = ([], H2H_Warning)
   \<and> h2h_view example_matches None None = ([], H2H_Warning)"
  using h2h_same_team_guard [of example_matches "Some ''A''"]
    h2h_same_team_guard [of example_matches None]
  by simp




subsection \<open>The overs string\<close>

lemma digit_cases: "d < 10 \<Longrightarrow> d \<in> {0, 1, 2, 3, 4, 5, 6, 7, 8, 9::nat}"
  by auto

lemma digit_value_digit_char: "d < 10 \<Longrightarrow> digit_value (digit_char d) = d"
  using digit_cases [of d] by (auto simp: digit_value_def digit_char_def)

lemma digit_char_not_dot: "d < 10 \<Longrightarrow> digit_char d \<noteq> CHR ''.''"
  using digit_cases [of d] by (auto simp: digit_char_def)

lemma str_nat_small: "n < 10 \<Longrightarrow> str_nat n = [digit_char n]"
  by (subst str_nat.simps) simp

lemma str_nat_large: "\<not> n < 10 \<Longrightarrow> str_nat n = str_nat (n div 10) @ [digit_char (n mod 10)]"
  by (subst str_nat.simps) simp

lemma read_nat_snoc: "read_nat (xs @ [c]) = 10 * read_nat xs + digit_value c"
  by (simp add: read_nat_def)

lemma read_nat_str_nat: "read_nat (str_nat n) = n"
proof (induction n rule: str_nat.induct)
  case (1 n)
  show ?case
  proof (cases "n < 10")
    case True
    then show ?thesis by (simp add: str_nat_small read_nat_def digit_value_digit_char)
  next
    case False
    with "1.IH" show ?thesis
      by (simp add: str_nat_large read_nat_snoc digit_value_digit_char)
  qed
qed

lemma str_nat_no_dot: "CHR ''.'' \<notin> set (str_nat n)"
proof (induction n rule: str_nat.induct)
  case (1 n)
  show ?case
  proof (cases "n < 10")
    case True
    then show ?thesis using digit_char_not_dot [of n] by (auto simp: str_nat_small)
  next
    case False
    with "1.IH" digit_char_not_dot [of "n mod 10"] show ?thesis
      by (auto simp: str_nat_large)
  qed
qed

lemma read_overs_join: "read_overs (str_nat q @ ''.'' @ str_nat r) = (q, r)"
proof -
  have a: "\<And>x. x \<in> set (str_nat q) \<Longrightarrow> x \<noteq> CHR ''.''"
    using str_nat_no_dot [of q] by auto
  have t: "takeWhile (\<lambda>c. c \<noteq> CHR ''.'') (str_nat q @ CHR ''.'' # str_nat r) = str_nat q"
    using a by (simp add: takeWhile_append2)
  have d: "dropWhile (\<lambda>c. c \<noteq> CHR ''.'') (str_nat q @ CHR ''.'' # str_nat r) = CHR ''.'' # str_nat r"
    using a by (simp add: dropWhile_append2)
  show ?thesis by (simp add: read_overs_def t d read_nat_str_nat)
qed

text \<open>
  Claim C4. For a number of balls \<open>total_balls \<ge> 0\<close> the overs string is the decimal
  number of \<open>total_balls div 6\<close>, a point, and the one digit of \<open>total_balls mod 6\<close>;
  the two numbers read back from the string are that quotient and that remainder, so
  six times the first plus the second is \<open>total_balls\<close> again. 37 balls give "6.1" and
  no ball gives "0.0".
\<close>

theorem overs_string_splits_balls:
  assumes "0 \<le> total_balls"
  shows "overs_bowled_str total_balls =
           str_nat (nat (total_balls div 6)) @ ''.'' @ [digit_char (nat (total_balls mod 6))]
    \<and> read_overs (overs_bowled_str total_balls) = (nat (total_balls div 6), nat (total_balls mod 6))
    \<and> 6 * int (fst (read_overs (overs_bowled_str total_balls)))
         + int (snd (read_overs (overs_bowled_str total_balls))) = total_balls
    \<and> snd (read_overs (overs_bowled_str total_balls)) < 6
    \<and> overs_bowled_str 37 = ''6.1''
    \<and> overs_bowled_str 0 = ''0.0''"
proof -
  have q: "0 \<le> total_balls div 6" using assms by simp
  have r: "0 \<le> total_balls mod 6" by simp
  have r6: "nat (total_balls mod 6) < 6" by simp
  have s: "overs_bowled_str total_balls =
     str_nat (nat (total_balls div 6)) @ ''.'' @ str_nat (nat (total_balls mod 6))"
    using q r by (simp add: overs_bowled_str_def py_str_def)
  have s': "str_nat (nat (total_balls mod 6)) = [digit_char (nat (total_balls mod 6))]"
    using r6 by (intro str_nat_small) linarith
  have ro: "read_overs (overs_bowled_str total_balls) = (nat (total_balls div 6), nat (total_balls mod 6))"
    unfolding s by (rule read_overs_join)
  have sum: "6 * int (nat (total_balls div 6)) + int (nat (total_balls mod 6)) = total_balls"
    using q r by simp
  have e37: "overs_bowled_str 37 = ''6.1''"
    by (simp add: overs_bowled_str_def py_str_def digit_char_def str_nat_small)
  have e0: "overs_bowled_str 0 = ''0.0''"
    by (simp add: overs_bowled_str_def py_str_def digit_char_def str_nat_small)
  show ?thesis using s s' ro sum r6 e37 e0 by simp
qed

theorem overs_string_splits_balls_witness:
  "(0::int) \<le> 1234
   \<and> overs_bowled_str 1234 = ''205.4''
   \<and> read_overs (overs_bowled_str 1234) = (205, 4)
   \<and> 6 * int (fst (read_overs (overs_bowled_str 1234)))
        + int (snd (read_overs (overs_bowled_str 1234))) = 1234"
  using overs_string_splits_balls [of 1234]
  by (simp add: digit_char_def str_nat_small str_nat_large read_overs_def read_nat_def
      digit_value_def)

subsection \<open>The Batsman Analysis view\<close>




lemma resolve_batsman_col_cases:
  "resolve_batsman_col tbl =
     (if ''batter'' \<in> set (d_columns tbl)
      then ([Batsmen_Query ''batter''],
            Inr (''batter'', select_distinct_ordered batter (d_rows tbl)))
      else if ''batsman'' \<in> set (d_columns tbl)
      then ([Batsmen_Query ''batter'', Batsmen_Query ''batsman''],
            Inr (''batsman'', select_distinct_ordered batsman (d_rows tbl)))
      else ([Batsmen_Query ''batter'', Batsmen_Query ''batsman''],
            Inl (Stopped ''Could not find 'batter' or 'batsman' column in deliveries.csv.'')))"
proof -
  have b: "batter_column ''batter'' = batter" by (rule ext) (simp add: batter_column_def)
  have m: "batter_column ''batsman'' = batsman" by (rule ext) (simp add: batter_column_def)
  show ?thesis by (simp add: resolve_batsman_col_def batsmen_query_def b m)
qed






text \<open>
  Claim C7. Both pie charts, the Fours/Sixes chart of a batter and the
  Wins/Losses/No Result chart of a team, are to be given the categories with a count
  above zero and no other. The batter's chart is not: it is drawn when one of the two
  figures is positive and is then given both sizes, the zero one included. Batter A of
  the example has one four and no six, and the chart gets the wedge Sixes of size 0.
\<close>

theorem batsman_pie_keeps_zero_wedge:
  "snd (batsman_view (example_deliveries [''batter'', ''bowler'']) (Some ''A'')) =
     Inr (Some \<lparr>shown_fours = 1, shown_sixes = 0,
                boundary_pie = Pie_Chart [(''Fours'', Some 1, ''#007bff''),
                                          (''Sixes'', Some 0, ''#dc3545'')]\<rparr>)"
  by (simp add: batsman_view_def resolve_batsman_col_cases example_deliveries_def
      example_rows_def ball_def truthy_def interpolate_def boundary_query_def
      batter_column_def selected_simps case_when_def sql_sum_def py_int_or_0_def
      batsman_pie_def py_and_positive_def)

subsection \<open>The Win/Loss chart\<close>

lemma non_zero_loop_filter:
  "non_zero_loop xs (ss, ls, cs) =
     (ss @ map fst (filter (\<lambda>(sz, l, c). sz > 0) xs),
      ls @ map (\<lambda>(sz, l, c). l) (filter (\<lambda>(sz, l, c). sz > 0) xs),
      cs @ map (\<lambda>(sz, l, c). c) (filter (\<lambda>(sz, l, c). sz > 0) xs))"
  by (induction xs arbitrary: ss ls cs) auto

text \<open>
  The team chart does leave the zero categories out: its wedges are the categories
  with a size above zero, in the order Wins, Losses, No Result, and a negative number
  of losses is left out as well.
\<close>

lemma team_pie_wedges:
  assumes "0 < metric_total_matches m"
  shows "team_pie m =
     (let wedges = filter (\<lambda>(label, sz, color). sz > 0)
            [(''Wins'', metric_wins m, ''#4CAF50''),
             (''Losses'', metric_losses m, ''#F44336''),
             (''No Result'', metric_no_result m, ''#9E9E9E'')]
      in if wedges \<noteq> [] then Pie_Chart wedges
         else Pie_Text ''No match data to display in pie chart.'')"
  using assms by (simp add: team_pie_def non_zero_loop_filter Let_def)

subsection \<open>The team selector\<close>

text \<open>
  The list of the selector holds the values of the column \<open>team1\<close>, each once, in
  ascending order (NULL first).
\<close>

lemma teams_query_team1:
  "sorted (teams_query ms) \<and> distinct (teams_query ms) \<and> set (teams_query ms) = team1 ` set ms"
  by (simp add: teams_query_def select_distinct_ordered_def)

text \<open>
  Claim C9. Every team that takes part in some match is to occur in the selector
  list, once and in sorted order. A team that is only ever the second team of a match
  does not occur: in the table of the one match A against B the list is A alone, while
  B has played a match.
\<close>

theorem teams_query_misses_team2:
  "teams_query [match_between 1 ''A'' ''B'' (Some ''A'')] = [Some ''A'']
   \<and> Some ''B'' \<notin> set (teams_query [match_between 1 ''A'' ''B'' (Some ''A'')])
   \<and> matches_played_query [match_between 1 ''A'' ''B'' (Some ''A'')] ''B'' = 1"
  by (simp add: teams_query_def select_distinct_ordered_def match_between_def
      matches_played_count)

subsection \<open>The Bowler Analysis view\<close>



















end
